theory Spec2Isabelle
  imports Main "HOL-Library.AList"
begin

section \<open>JavaScript values\<close>

text \<open>
  The component \<open>FlowBuilderContent\<close> of \<open>src/pages/index.js\<close> keeps its graph in two
  React state variables, \<open>nodes\<close> and \<open>edges\<close>. Nothing in the program fixes their type:
  the import handler stores whatever the parsed file holds. The store is therefore
  modelled over JavaScript values.

  \<^item> A number is an \<open>int\<close>: every number the program computes is an integer far below
    \<open>2^53\<close> (\<open>150\<close>, \<open>100 + 70 * n\<close>, \<open>100 + idx * 80\<close>), where the arithmetic of
    doubles is exact. Fractions, \<open>NaN\<close> and the infinities are outside the model.
  \<^item> A string is a list of code units; a \<open>char\<close> stands for a code unit below \<open>256\<close>.
  \<^item> An object is the list of its own properties in the order in which the language
    enumerates them; a read takes the first binding of a name. Properties inherited
    from a prototype are not modelled: the program reads none.
  \<^item> Functions and symbols do not occur: no value of the store is one.
\<close>

datatype jsval =
    JUndefined
  | JNull
  | JBool bool
  | JNum int
  | JStr string
  | JArr "jsval list"
  | JObj "(string \<times> jsval) list"

datatype error = TypeError | SyntaxError

text \<open>\<open>ToBoolean\<close>: what \<open>if (v)\<close>, \<open>!v\<close>, \<open>a && b\<close> and \<open>a || b\<close> test.\<close>

fun truthy :: "jsval \<Rightarrow> bool" where
  "truthy JUndefined = False"
| "truthy JNull = False"
| "truthy (JBool b) = b"
| "truthy (JNum n) = (n \<noteq> 0)"
| "truthy (JStr s) = (s \<noteq> [])"
| "truthy (JArr xs) = True"
| "truthy (JObj ps) = True"

text \<open>\<open>a || b\<close> and \<open>a && b\<close> on values that are already evaluated.\<close>

definition js_or :: "jsval \<Rightarrow> jsval \<Rightarrow> jsval" where
  "js_or a b = (if truthy a then a else b)"

fun nullish :: "jsval \<Rightarrow> bool" where
  "nullish JUndefined = True"
| "nullish JNull = True"
| "nullish v = False"

text \<open>
  The value of \<open>v.k\<close> where \<open>v\<close> is neither \<open>undefined\<close> nor \<open>null\<close>. The program reads
  the names \<open>id\<close>, \<open>data\<close>, \<open>label\<close>, \<open>description\<close>, \<open>source\<close>, \<open>target\<close>, \<open>nodes\<close>,
  \<open>edges\<close> and \<open>length\<close>; of these only \<open>length\<close> is a built-in property, of arrays
  and of strings. (Method calls are modelled one by one below.)
\<close>

fun property :: "jsval \<Rightarrow> string \<Rightarrow> jsval" where
  "property (JObj ps) k = (case map_of ps k of None \<Rightarrow> JUndefined | Some v \<Rightarrow> v)"
| "property (JArr xs) k = (if k = ''length'' then JNum (int (length xs)) else JUndefined)"
| "property (JStr s) k = (if k = ''length'' then JNum (int (length s)) else JUndefined)"
| "property v k = JUndefined"

text \<open>The read \<open>v.k\<close>: a \<open>TypeError\<close> on \<open>undefined\<close> and \<open>null\<close>.\<close>

definition get :: "jsval \<Rightarrow> string \<Rightarrow> error + jsval" where
  "get v k = (if nullish v then Inl TypeError else Inr (property v k))"

fun is_primitive :: "jsval \<Rightarrow> bool" where
  "is_primitive (JArr xs) = False"
| "is_primitive (JObj ps) = False"
| "is_primitive v = True"

text \<open>
  \<open>a === b\<close>. Primitives are compared by type and value. Two objects (or arrays) are
  equal when they are the same reference, which a model of values cannot tell: the
  function answers \<open>False\<close> for them, and every statement below that depends on a
  comparison takes one side to be a primitive, where the answer is the program's.
\<close>

definition strict_equals :: "jsval \<Rightarrow> jsval \<Rightarrow> bool" where
  "strict_equals a b = (is_primitive a \<and> a = b)"

text \<open>Decimal digits of an array index, the name of the property that holds the element.\<close>

fun index_name :: "nat \<Rightarrow> string" where
  "index_name n =
     (if n < 10 then [char_of (48 + n)]
      else index_name (n div 10) @ [char_of (48 + n mod 10)])"

text \<open>
  The own enumerable properties that \<open>{...v}\<close> copies: those of an object, the
  elements of an array and the code units of a string under their indices, none of
  any other value.
\<close>

fun spread :: "jsval \<Rightarrow> (string \<times> jsval) list" where
  "spread (JObj ps) = ps"
| "spread (JArr xs) = zip (map index_name [0..<length xs]) xs"
| "spread (JStr s) = zip (map index_name [0..<length s]) (map (\<lambda>c. JStr [c]) s)"
| "spread v = []"

text \<open>
  \<open>WhiteSpace\<close> and \<open>LineTerminator\<close> of the language, among the code units below
  \<open>256\<close>: TAB, LF, VT, FF, CR, SP and NBSP.
\<close>

definition is_white_space :: "char \<Rightarrow> bool" where
  "is_white_space c = (of_char c \<in> {9, 10, 11, 12, 13, 32, 160 :: nat})"

text \<open>\<open>String.prototype.trim\<close>.\<close>

definition trim :: "string \<Rightarrow> string" where
  "trim s = rev (dropWhile is_white_space (rev (dropWhile is_white_space s)))"

text \<open>\<open>v.trim()\<close>: only a string has the method.\<close>

fun trim_method :: "jsval \<Rightarrow> error + string" where
  "trim_method (JStr s) = Inr (trim s)"
| "trim_method v = Inl TypeError"

text \<open>
  A callback that may throw, run over the elements of an array from left to right:
  the first exception ends the loop.
\<close>

fun traverse :: "('a \<Rightarrow> error + 'b) \<Rightarrow> 'a list \<Rightarrow> error + 'b list" where
  "traverse f [] = Inr []"
| "traverse f (x # xs) =
     (case f x of
        Inl e \<Rightarrow> Inl e
      | Inr y \<Rightarrow> (case traverse f xs of Inl e \<Rightarrow> Inl e | Inr ys \<Rightarrow> Inr (y # ys)))"

text \<open>
  \<open>v.map(f)\<close>, where \<open>f\<close> receives the element and its index. Only an array has the
  method; on any other value the call throws.
\<close>

fun Array_map :: "(jsval \<Rightarrow> nat \<Rightarrow> error + jsval) \<Rightarrow> jsval \<Rightarrow> error + jsval" where
  "Array_map f (JArr xs) =
     (case traverse (\<lambda>(idx, x). f x idx) (enumerate 0 xs) of
        Inl e \<Rightarrow> Inl e
      | Inr ys \<Rightarrow> Inr (JArr ys))"
| "Array_map f v = Inl TypeError"

text \<open>\<open>v.filter(p)\<close>, likewise.\<close>

fun Array_filter :: "(jsval \<Rightarrow> error + bool) \<Rightarrow> jsval \<Rightarrow> error + jsval" where
  "Array_filter p (JArr xs) =
     (case traverse (\<lambda>x. case p x of Inl e \<Rightarrow> Inl e | Inr b \<Rightarrow> Inr (x, b)) xs of
        Inl e \<Rightarrow> Inl e
      | Inr ys \<Rightarrow> Inr (JArr (map fst (filter snd ys))))"
| "Array_filter p v = Inl TypeError"

text \<open>
  \<open>v.concat(obj)\<close> for an argument that is a plain object. An array gets it as a
  new last element. A string has a method of the same name, which appends the text
  of the object. No other value has the method.
\<close>

fun concat_method :: "jsval \<Rightarrow> jsval \<Rightarrow> error + jsval" where
  "concat_method (JArr xs) obj = Inr (JArr (xs @ [obj]))"
| "concat_method (JStr s) obj = Inr (JStr (s @ ''[object Object]''))"
| "concat_method v obj = Inl TypeError"

text \<open>Sequencing of computations that may throw.\<close>

definition bind :: "error + 'a \<Rightarrow> ('a \<Rightarrow> error + 'b) \<Rightarrow> error + 'b" where
  "bind m f = (case m of Inl e \<Rightarrow> Inl e | Inr x \<Rightarrow> f x)"

section \<open>The JSON codec of the platform\<close>

text \<open>
  \<open>JSON.stringify\<close> and \<open>JSON.parse\<close> belong to the platform, not to the program. The
  content of a file is taken up to JSON's concrete syntax: it is either text that
  \<open>JSON.parse\<close> rejects, or text that denotes a JSON value.
\<close>

datatype document = Malformed | Json jsval

fun JSON_parse :: "document \<Rightarrow> error + jsval" where
  "JSON_parse Malformed = Inl SyntaxError"
| "JSON_parse (Json v) = Inr v"



section \<open>The state of the component\<close>

text \<open>
  The edit buffer \<open>currentNode\<close>. Its field \<open>id\<close> is called \<open>node_id\<close> here, \<open>id\<close> being
  the identity function of HOL.
\<close>

record edit_buffer =
  node_id :: jsval
  label :: jsval
  description :: jsval

text \<open>The six state variables of \<open>FlowBuilderContent\<close> (lines 28 to 49).\<close>

record state =
  nodes :: jsval
  edges :: jsval
  showModal :: bool
  isEditMode :: bool
  error :: string
  currentNode :: edit_buffer

text \<open>The seed node of line 29 and the initial values of the state variables.\<close>

definition seed_node :: jsval where
  "seed_node =
     JObj [(''id'', JStr ''1''),
           (''type'', JStr ''default''),
           (''position'', JObj [(''x'', JNum 100), (''y'', JNum 100)]),
           (''data'', JObj [(''label'', JStr ''Start'')])]"

definition initial_state :: state where
  "initial_state =
     \<lparr> nodes = JArr [seed_node],
       edges = JArr [],
       showModal = False,
       isEditMode = False,
       error = [],
       currentNode = \<lparr> node_id = JStr [], label = JStr [], description = JStr [] \<rparr> \<rparr>"

text \<open>The states of the edit session, read off the modal's two flags.\<close>

datatype session = Closed | AddingNew | EditingExisting

definition session_of :: "state \<Rightarrow> session" where
  "session_of s =
     (if \<not> showModal s then Closed
      else if isEditMode s then EditingExisting
      else AddingNew)"

section \<open>The handlers\<close>

text \<open>
  Each handler is a function of the state at the event. A handler that can throw
  returns \<open>Inl\<close> when an exception leaves it or one of the state updaters it queued.
\<close>

definition handleAddNode :: "state \<Rightarrow> state" where
  "handleAddNode s =
     s\<lparr> error := [],
        isEditMode := False,
        currentNode := \<lparr> node_id = JStr [], label = JStr [], description = JStr [] \<rparr>,
        showModal := True \<rparr>"

definition handleNodeClick :: "jsval \<Rightarrow> state \<Rightarrow> error + state" where
  "handleNodeClick node s =
     bind (get node ''id'') (\<lambda>i.
     bind (get node ''data'') (\<lambda>d.
     bind (get d ''label'') (\<lambda>l.
     bind (get d ''description'') (\<lambda>dsc.
       Inr (s\<lparr> error := [],
               isEditMode := True,
               currentNode := \<lparr> node_id = i,
                                label = js_or l (JStr []),
                                description = js_or dsc (JStr []) \<rparr>,
               showModal := True \<rparr>)))))"

text \<open>The two \<open>onChange\<close> handlers of the form (lines 243 and 254) and the modal's \<open>onHide\<close>.\<close>

definition onChangeLabel :: "string \<Rightarrow> state \<Rightarrow> state" where
  "onChangeLabel v s = s\<lparr> currentNode := (currentNode s)\<lparr> label := JStr v \<rparr> \<rparr>"

definition onChangeDescription :: "string \<Rightarrow> state \<Rightarrow> state" where
  "onChangeDescription v s = s\<lparr> currentNode := (currentNode s)\<lparr> description := JStr v \<rparr> \<rparr>"

definition onHide :: "state \<Rightarrow> state" where
  "onHide s = s\<lparr> showModal := False \<rparr>"

text \<open>The \<open>data\<close> object that Save builds from the buffer (lines 84 and 97).\<close>

definition data_of :: "edit_buffer \<Rightarrow> jsval" where
  "data_of b = JObj [(''label'', label b), (''description'', description b)]"

text \<open>
  \<open>nodes.length || 1\<close> as a number. It is one whenever \<open>nodes\<close> is an array or a
  string. Where it is not (an object with an own property \<open>length\<close>), the product
  \<open>70 * ...\<close> is outside the model's numbers; the call of \<open>concat\<close> that follows throws on
  every such \<open>nodes\<close>, and so does the model.
\<close>

fun as_number :: "jsval \<Rightarrow> error + int" where
  "as_number (JNum n) = Inr n"
| "as_number v = Inl TypeError"

text \<open>
  \<open>handleSaveNode\<close> (lines 70 to 106). The identifier that \<open>uuidv4()\<close> returns is a
  parameter.
\<close>

definition handleSaveNode :: "string \<Rightarrow> state \<Rightarrow> error + state" where
  "handleSaveNode uuid s =
     bind (trim_method (label (currentNode s))) (\<lambda>t.
       if t = [] then Inr (s\<lparr> error := ''Label is required'' \<rparr>)
       else if isEditMode s then
         bind (Array_map
                 (\<lambda>n idx. bind (get n ''id'') (\<lambda>i.
                    Inr (if strict_equals i (node_id (currentNode s))
                         then JObj (AList.update ''data'' (data_of (currentNode s)) (spread n))
                         else n)))
                 (nodes s)) (\<lambda>nds.
           Inr (s\<lparr> error := [], nodes := nds, showModal := False \<rparr>))
       else
         bind (get (nodes s) ''length'') (\<lambda>len.
         bind (as_number (js_or len (JNum 1))) (\<lambda>count.
         bind (concat_method (nodes s)
                 (JObj [(''id'', JStr uuid),
                        (''position'', JObj [(''x'', JNum 150), (''y'', JNum (100 + 70 * count))]),
                        (''data'', data_of (currentNode s))])) (\<lambda>nds.
           Inr (s\<lparr> error := [], nodes := nds, showModal := False \<rparr>)))))"

text \<open>\<open>handleDeleteNode\<close> (lines 108 to 119).\<close>

definition handleDeleteNode :: "state \<Rightarrow> error + state" where
  "handleDeleteNode s =
     (if isEditMode s then
        bind (Array_filter
                (\<lambda>n. bind (get n ''id'') (\<lambda>i.
                   Inr (\<not> strict_equals i (node_id (currentNode s)))))
                (nodes s)) (\<lambda>nds.
        bind (Array_filter
                (\<lambda>e. bind (get e ''source'') (\<lambda>a.
                   if \<not> strict_equals a (node_id (currentNode s))
                   then bind (get e ''target'') (\<lambda>b.
                          Inr (\<not> strict_equals b (node_id (currentNode s))))
                   else Inr False))
                (edges s)) (\<lambda>eds.
          Inr (s\<lparr> nodes := nds, edges := eds, showModal := False \<rparr>)))
      else Inr s)"


text \<open>
  \<open>reader.onload\<close> (lines 138 to 148) on the content of the chosen file. Every
  exception of the \<open>try\<close> block, the \<open>SyntaxError\<close> of the parser as well as the
  \<open>TypeError\<close> of a read on \<open>null\<close>, ends in the \<open>catch\<close> clause.
\<close>

definition onload :: "document \<Rightarrow> state \<Rightarrow> state" where
  "onload doc s =
     (case bind (JSON_parse doc) (\<lambda>json.
           bind (get json ''nodes'') (\<lambda>n.
             if truthy n then
               bind (get json ''edges'') (\<lambda>e.
                 if truthy e then Inr (s\<lparr> nodes := n, edges := e \<rparr>) else Inr s)
             else Inr s))
      of Inl e \<Rightarrow> s\<lparr> error := ''Invalid JSON file'' \<rparr>
       | Inr s' \<Rightarrow> s')"


text \<open>\<open>autoArrange\<close> (lines 154 to 164), with \<open>xStart = 100\<close>, \<open>yStart = 100\<close>, \<open>yGap = 80\<close>.\<close>

definition autoArrange :: "state \<Rightarrow> error + state" where
  "autoArrange s =
     bind (Array_map
             (\<lambda>node idx.
                Inr (JObj (AList.update ''position''
                             (JObj [(''x'', JNum 100), (''y'', JNum (100 + int idx * 80))])
                             (spread node))))
             (nodes s)) (\<lambda>nds.
       Inr (s\<lparr> nodes := nds \<rparr>))"

section \<open>Notions used in the statements\<close>


fun is_object :: "jsval \<Rightarrow> bool" where
  "is_object (JObj ps) = True"
| "is_object v = False"

text \<open>A document has a field when it is an object with an own property of that name.\<close>

fun has_field :: "jsval \<Rightarrow> string \<Rightarrow> bool" where
  "has_field (JObj ps) k = (k \<in> set (map fst ps))"
| "has_field v k = False"

text \<open>The Graph Store is the pair of the two state variables.\<close>

definition store :: "state \<Rightarrow> jsval \<times> jsval" where
  "store s = (nodes s, edges s)"

fun store_after :: "error + state \<Rightarrow> (jsval \<times> jsval) option" where
  "store_after (Inl e) = None"
| "store_after (Inr s) = Some (store s)"

text \<open>The node that Save appends for a buffer, an identifier and a vertical coordinate.\<close>

definition added_node :: "string \<Rightarrow> edit_buffer \<Rightarrow> int \<Rightarrow> jsval" where
  "added_node uuid b y =
     JObj [(''id'', JStr uuid),
           (''position'', JObj [(''x'', JNum 150), (''y'', JNum y)]),
           (''data'', data_of b)]"

definition node_ids :: "jsval list \<Rightarrow> jsval list" where
  "node_ids ns = map (\<lambda>n. property n ''id'') ns"

text \<open>No dangling edge: both ends of every edge are identifiers of nodes.\<close>

definition referential_integrity :: "jsval list \<Rightarrow> jsval list \<Rightarrow> bool" where
  "referential_integrity ns es =
     list_all (\<lambda>e. property e ''source'' \<in> set (node_ids ns) \<and>
                   property e ''target'' \<in> set (node_ids ns)) es"

text \<open>
  A node on which \<open>handleNodeClick\<close> does not throw, with an identifier that \<open>===\<close>
  compares by value.
\<close>

definition clickable :: "jsval \<Rightarrow> bool" where
  "clickable c =
     (\<not> nullish c \<and> \<not> nullish (property c ''data'') \<and> is_primitive (property c ''id''))"

text \<open>
  A sequence of Delete operations, as the program offers them: select a node, which
  opens the modal in edit mode, and press Delete.
\<close>

fun delete_sequence :: "jsval list \<Rightarrow> state \<Rightarrow> error + state" where
  "delete_sequence [] s = Inr s"
| "delete_sequence (c # cs) s =
     bind (handleNodeClick c s) (\<lambda>s1. bind (handleDeleteNode s1) (delete_sequence cs))"

section \<open>Example states\<close>

definition second_node :: jsval where
  "second_node =
     JObj [(''id'', JStr ''2''),
           (''position'', JObj [(''x'', JNum 150), (''y'', JNum 170)]),
           (''data'', JObj [(''label'', JStr ''B''), (''description'', JStr [])])]"

definition first_edge :: jsval where
  "first_edge =
     JObj [(''id'', JStr ''e1-2''),
           (''source'', JStr ''1''),
           (''target'', JStr ''2''),
           (''animated'', JBool True)]"

text \<open>Two nodes and the edge between them, the modal open on the seed node.\<close>

definition editing_state :: state where
  "editing_state =
     \<lparr> nodes = JArr [seed_node, second_node],
       edges = JArr [first_edge],
       showModal = True,
       isEditMode = True,
       error = [],
       currentNode = \<lparr> node_id = JStr ''1'', label = JStr ''Begin'', description = JStr [] \<rparr> \<rparr>"

text \<open>The same graph, the modal open on a node that is no longer there.\<close>

definition stale_state :: state where
  "stale_state =
     \<lparr> nodes = JArr [seed_node, second_node],
       edges = JArr [first_edge],
       showModal = True,
       isEditMode = True,
       error = [],
       currentNode = \<lparr> node_id = JStr ''3'', label = JStr ''C'', description = JStr [] \<rparr> \<rparr>"

text \<open>
  A file without the seed node but with an edge from it, and the state after this file
  is loaded while the modal is open on the seed node.
\<close>

definition dangling_document :: document where
  "dangling_document =
     Json (JObj [(''nodes'', JArr [second_node]), (''edges'', JArr [first_edge])])"

definition dangling_state :: state where
  "dangling_state =
     \<lparr> nodes = JArr [second_node],
       edges = JArr [first_edge],
       showModal = True,
       isEditMode = True,
       error = [],
       currentNode = \<lparr> node_id = JStr ''1'', label = JStr ''Start'', description = JStr [] \<rparr> \<rparr>"

text \<open>
  The state after the seed node was deleted, Add was pressed and the label \<open>B\<close> typed:
  no node is left.
\<close>

definition empty_add_state :: state where
  "empty_add_state =
     \<lparr> nodes = JArr [],
       edges = JArr [],
       showModal = True,
       isEditMode = False,
       error = [],
       currentNode = \<lparr> node_id = JStr [], label = JStr ''B'', description = JStr [] \<rparr> \<rparr>"

text \<open>
  A file with two nodes and two edges that start at a node it does not hold, and the
  state after this file is loaded in the initial state. Import takes the edges as they
  are.
\<close>

definition third_node :: jsval where
  "third_node =
     JObj [(''id'', JStr ''3''),
           (''position'', JObj [(''x'', JNum 150), (''y'', JNum 240)]),
           (''data'', JObj [(''label'', JStr ''C''), (''description'', JStr [])])]"

definition second_edge :: jsval where
  "second_edge =
     JObj [(''id'', JStr ''e1-3''),
           (''source'', JStr ''1''),
           (''target'', JStr ''3''),
           (''animated'', JBool True)]"

definition unchecked_document :: document where
  "unchecked_document =
     Json (JObj [(''nodes'', JArr [second_node, third_node]),
                 (''edges'', JArr [first_edge, second_edge])])"

definition unchecked_state :: state where
  "unchecked_state =
     \<lparr> nodes = JArr [second_node, third_node],
       edges = JArr [first_edge, second_edge],
       showModal = False,
       isEditMode = False,
       error = [],
       currentNode = \<lparr> node_id = JStr [], label = JStr [], description = JStr [] \<rparr> \<rparr>"

text \<open>
  A node whose \<open>data\<close> holds a field besides the label, the file that brings it, and the
  state after the file is loaded, the node selected and the label \<open>Begin\<close> typed.
\<close>

definition coloured_node :: jsval where
  "coloured_node =
     JObj [(''id'', JStr ''1''),
           (''position'', JObj [(''x'', JNum 100), (''y'', JNum 100)]),
           (''data'', JObj [(''label'', JStr ''Start''), (''color'', JStr ''red'')])]"

definition coloured_document :: document where
  "coloured_document = Json (JObj [(''nodes'', JArr [coloured_node]), (''edges'', JArr [])])"

definition coloured_state :: state where
  "coloured_state =
     \<lparr> nodes = JArr [coloured_node],
       edges = JArr [],
       showModal = True,
       isEditMode = True,
       error = [],
       currentNode = \<lparr> node_id = JStr ''1'', label = JStr ''Begin'', description = JStr [] \<rparr> \<rparr>"

section \<open>Auxiliary lemmas\<close>

lemma bind_Inr [simp]: "bind (Inr x) f = f x"
  by (simp add: bind_def)

lemma bind_Inl [simp]: "bind (Inl e) f = Inl e"
  by (simp add: bind_def)

lemma get_total: "\<not> nullish v \<Longrightarrow> get v k = Inr (property v k)"
  by (simp add: get_def)

lemma strict_equals_primitive: "is_primitive b \<Longrightarrow> strict_equals a b = (a = b)"
  by (auto simp: strict_equals_def)

lemma property_absent:
  "\<not> has_field v k \<Longrightarrow> k \<noteq> ''length'' \<Longrightarrow> property v k = JUndefined"
  by (cases v) (force dest: map_of_SomeD split: option.splits)+

lemma dropWhile_all: "\<forall>x\<in>set l. P x \<Longrightarrow> dropWhile P l = []"
  by (induction l) auto

lemma trim_white_space: "list_all is_white_space l \<Longrightarrow> trim l = []"
  by (simp add: trim_def list_all_iff dropWhile_all)


text \<open>The array methods with a callback that does not throw.\<close>

lemma traverse_Inr:
  "(\<And>x. x \<in> set xs \<Longrightarrow> f x = Inr (g x)) \<Longrightarrow> traverse f xs = Inr (map g xs)"
  by (induction xs) auto

lemma Array_filter_total:
  assumes "\<And>x. x \<in> set xs \<Longrightarrow> p x = Inr (q x)"
  shows "Array_filter p (JArr xs) = Inr (JArr (filter q xs))"
proof -
  have "traverse (\<lambda>x. case p x of Inl e \<Rightarrow> Inl e | Inr b \<Rightarrow> Inr (x, b)) xs
          = Inr (map (\<lambda>x. (x, q x)) xs)"
    by (rule traverse_Inr) (simp add: assms)
  moreover have "map fst (filter snd (map (\<lambda>x. (x, q x)) xs)) = filter q xs"
    by (induction xs) auto
  ultimately show ?thesis by simp
qed

lemma Array_map_total:
  assumes "\<And>j. j < length xs \<Longrightarrow> f (xs ! j) j = Inr (g (xs ! j) j)"
  shows "Array_map f (JArr xs) = Inr (JArr (map (\<lambda>(j, x). g x j) (enumerate 0 xs)))"
proof -
  have "traverse (\<lambda>(idx, x). f x idx) (enumerate 0 xs)
          = Inr (map (\<lambda>(idx, x). g x idx) (enumerate 0 xs))"
  proof (rule traverse_Inr)
    fix p assume "p \<in> set (enumerate 0 xs)"
    then have "fst p < length xs" and "xs ! fst p = snd p"
      by (simp_all add: in_set_enumerate_eq)
    with assms [of "fst p"]
    show "(case p of (idx, x) \<Rightarrow> f x idx) = Inr (case p of (idx, x) \<Rightarrow> g x idx)"
      by (cases p) simp
  qed
  then show ?thesis by simp
qed

text \<open>The two handlers behind Delete, on a store of the expected shape.\<close>

lemma handleNodeClick_effect:
  assumes "clickable c"
  shows "handleNodeClick c s
           = Inr (s\<lparr> error := [], isEditMode := True,
                    currentNode :=
                      \<lparr> node_id = property c ''id'',
                        label = js_or (property (property c ''data'') ''label'') (JStr []),
                        description =
                          js_or (property (property c ''data'') ''description'') (JStr []) \<rparr>,
                    showModal := True \<rparr>)"
  using assms by (simp add: handleNodeClick_def clickable_def get_total)

lemma handleDeleteNode_effect:
  assumes "isEditMode s" and "nodes s = JArr ns" and "edges s = JArr es"
    and "list_all (\<lambda>v. \<not> nullish v) ns" and "list_all (\<lambda>v. \<not> nullish v) es"
    and "is_primitive (node_id (currentNode s))"
  shows "handleDeleteNode s =
           Inr (s\<lparr> nodes := JArr (filter (\<lambda>n. property n ''id'' \<noteq> node_id (currentNode s)) ns),
                  edges := JArr (filter (\<lambda>e. property e ''source'' \<noteq> node_id (currentNode s) \<and>
                                             property e ''target'' \<noteq> node_id (currentNode s)) es),
                  showModal := False \<rparr>)"
proof -
  let ?i = "node_id (currentNode s)"
  have n: "Array_filter (\<lambda>n. bind (get n ''id'') (\<lambda>i. Inr (\<not> strict_equals i ?i))) (JArr ns)
             = Inr (JArr (filter (\<lambda>n. property n ''id'' \<noteq> ?i) ns))"
    using assms(4,6)
    by (intro Array_filter_total) (simp add: list_all_iff get_total strict_equals_primitive)
  have e: "Array_filter
             (\<lambda>e. bind (get e ''source'') (\<lambda>a.
                if \<not> strict_equals a ?i
                then bind (get e ''target'') (\<lambda>b. Inr (\<not> strict_equals b ?i))
                else Inr False)) (JArr es)
             = Inr (JArr (filter (\<lambda>e. property e ''source'' \<noteq> ?i \<and>
                                      property e ''target'' \<noteq> ?i) es))"
    using assms(5,6)
    by (intro Array_filter_total) (simp add: list_all_iff get_total strict_equals_primitive)
  show ?thesis
    unfolding handleDeleteNode_def assms(2,3) n e using assms(1) by simp
qed

lemma delete_sequence_store:
  assumes "list_all clickable cs"
    and "nodes s = JArr ns" and "edges s = JArr es"
    and "list_all (\<lambda>v. \<not> nullish v) ns" and "list_all (\<lambda>v. \<not> nullish v) es"
  shows "store_after (delete_sequence cs s) =
           Some (JArr (filter (\<lambda>n. property n ''id'' \<notin> set (node_ids cs)) ns),
                 JArr (filter (\<lambda>e. property e ''source'' \<notin> set (node_ids cs) \<and>
                                   property e ''target'' \<notin> set (node_ids cs)) es))"
  using assms
proof (induction cs arbitrary: s ns es)
  case Nil
  then show ?case by (simp add: store_def node_ids_def)
next
  case (Cons c cs)
  from Cons.prems(1) have c: "clickable c" and cs: "list_all clickable cs" by simp_all
  define b where "b =
    \<lparr> node_id = property c ''id'',
      label = js_or (property (property c ''data'') ''label'') (JStr []),
      description = js_or (property (property c ''data'') ''description'') (JStr []) \<rparr>"
  have click: "handleNodeClick c s
              = Inr (s\<lparr> error := [], isEditMode := True, currentNode := b, showModal := True \<rparr>)"
    unfolding b_def by (rule handleNodeClick_effect [OF c])
  have b: "node_id b = property c ''id''"
    by (simp add: b_def)
  let ?s1 = "s\<lparr> error := [], isEditMode := True, currentNode := b, showModal := True \<rparr>"
  let ?i = "property c ''id''"
  let ?ns = "filter (\<lambda>n. property n ''id'' \<noteq> ?i) ns"
  let ?es = "filter (\<lambda>e. property e ''source'' \<noteq> ?i \<and> property e ''target'' \<noteq> ?i) es"
  let ?s2 = "?s1\<lparr> nodes := JArr ?ns, edges := JArr ?es, showModal := False \<rparr>"
  have del: "handleDeleteNode ?s1 = Inr ?s2"
    using handleDeleteNode_effect [of ?s1 ns es] Cons.prems(2-5) c b
    by (simp add: clickable_def)
  have "store_after (delete_sequence cs ?s2) =
          Some (JArr (filter (\<lambda>n. property n ''id'' \<notin> set (node_ids cs)) ?ns),
                JArr (filter (\<lambda>e. property e ''source'' \<notin> set (node_ids cs) \<and>
                                  property e ''target'' \<notin> set (node_ids cs)) ?es))"
    using Cons.prems(4,5) by (intro Cons.IH [OF cs]) (simp_all add: list_all_iff)
  moreover have "delete_sequence (c # cs) s = delete_sequence cs ?s2"
    by (simp add: click del)
  ultimately show ?case
    by (simp add: node_ids_def conj_commute conj_left_commute cong: conj_cong)
qed

lemma referential_integrity_filter:
  assumes "referential_integrity ns es"
  shows "referential_integrity
           (filter (\<lambda>n. property n ''id'' \<notin> D) ns)
           (filter (\<lambda>e. property e ''source'' \<notin> D \<and> property e ''target'' \<notin> D) es)"
  using assms by (auto simp: referential_integrity_def node_ids_def list_all_iff)

text \<open>An edge that is kept loses no end that it had among the nodes.\<close>

lemma kept_edge_keeps_its_ends:
  assumes "e \<in> set (filter (\<lambda>e. property e ''source'' \<notin> D \<and> property e ''target'' \<notin> D) es)"
  shows "(property e ''source'' \<in> set (node_ids ns) \<longrightarrow>
            property e ''source'' \<in> set (node_ids (filter (\<lambda>n. property n ''id'' \<notin> D) ns)))
       \<and> (property e ''target'' \<in> set (node_ids ns) \<longrightarrow>
            property e ''target'' \<in> set (node_ids (filter (\<lambda>n. property n ''id'' \<notin> D) ns)))"
  using assms by (auto simp: node_ids_def)

lemma filter_id_absent:
  "i \<notin> set (node_ids ns) \<Longrightarrow> filter (\<lambda>n. property n ''id'' \<noteq> i) ns = ns"
  by (auto simp: node_ids_def intro!: filter_True)

text \<open>A file that is not JSON: the state is kept and the message is set.\<close>

lemma onload_Malformed: "onload Malformed s = s\<lparr> error := ''Invalid JSON file'' \<rparr>"
  by (simp add: onload_def)

text \<open>The example states are states of the program: handlers lead to them.\<close>

lemma editing_state_reachable:
  "map_sum id (onChangeLabel ''Begin'')
     (handleNodeClick seed_node
        (initial_state\<lparr> nodes := JArr [seed_node, second_node], edges := JArr [first_edge] \<rparr>))
     = Inr editing_state"
  by (simp add: handleNodeClick_def get_def js_or_def onChangeLabel_def editing_state_def
      initial_state_def seed_node_def)

lemma dangling_state_reachable:
  "map_sum id (onload dangling_document) (handleNodeClick seed_node initial_state)
     = Inr dangling_state"
  by (simp add: handleNodeClick_def onload_def get_def js_or_def dangling_document_def
      dangling_state_def initial_state_def seed_node_def)

lemma unchecked_state_reachable:
  "onload unchecked_document initial_state = unchecked_state"
  by (simp add: onload_def get_def unchecked_document_def unchecked_state_def initial_state_def)

lemma coloured_state_reachable:
  "map_sum id (onChangeLabel ''Begin'')
     (handleNodeClick coloured_node (onload coloured_document initial_state))
     = Inr coloured_state"
  by (simp add: handleNodeClick_def onload_def get_def js_or_def onChangeLabel_def
      coloured_document_def coloured_state_def initial_state_def coloured_node_def)

lemma empty_add_state_reachable:
  "map_sum id (onChangeLabel ''B'')
     (map_sum id handleAddNode
        (bind (handleNodeClick seed_node initial_state) handleDeleteNode))
     = Inr empty_add_state"
  by (simp add: handleNodeClick_def handleDeleteNode_def get_def js_or_def strict_equals_def
      onChangeLabel_def handleAddNode_def empty_add_state_def initial_state_def seed_node_def)

section \<open>The claims\<close>

subsection \<open>C1: export, then import\<close>



subsection \<open>C2: cascading delete\<close>

text \<open>
  Claim C2, as amended. On a store whose nodes and edges are arrays (of values other
  than \<open>undefined\<close> and \<open>null\<close>), Delete in edit mode removes exactly the nodes whose
  \<open>id\<close> is the identifier in the buffer and exactly the edges whose \<open>source\<close> or
  \<open>target\<close> is that identifier. After any sequence of Delete operations the nodes left
  are those whose identifier was not deleted and the edges left are those with neither
  end deleted, so no edge left refers to a deleted identifier. If no edge referred to
  a missing node before the sequence, none does after it. In any store, an end of an
  edge left that was the identifier of a node before the sequence still is one after
  it: Delete makes no edge dangle, and it repairs none that dangled on an identifier
  that is not deleted.
\<close>

theorem delete_cascades:
  assumes "nodes s = JArr ns" and "edges s = JArr es"
    and "list_all (\<lambda>v. \<not> nullish v) ns" and "list_all (\<lambda>v. \<not> nullish v) es"
    and "list_all clickable cs"
  shows "(isEditMode s \<and> is_primitive (node_id (currentNode s)) \<longrightarrow>
            handleDeleteNode s =
              Inr (s\<lparr> nodes := JArr (filter (\<lambda>n. property n ''id'' \<noteq> node_id (currentNode s)) ns),
                     edges := JArr (filter (\<lambda>e. property e ''source'' \<noteq> node_id (currentNode s) \<and>
                                                property e ''target'' \<noteq> node_id (currentNode s)) es),
                     showModal := False \<rparr>))
       \<and> store_after (delete_sequence cs s) =
            Some (JArr (filter (\<lambda>n. property n ''id'' \<notin> set (node_ids cs)) ns),
                  JArr (filter (\<lambda>e. property e ''source'' \<notin> set (node_ids cs) \<and>
                                    property e ''target'' \<notin> set (node_ids cs)) es))
       \<and> (referential_integrity ns es \<longrightarrow>
            referential_integrity
              (filter (\<lambda>n. property n ''id'' \<notin> set (node_ids cs)) ns)
              (filter (\<lambda>e. property e ''source'' \<notin> set (node_ids cs) \<and>
                           property e ''target'' \<notin> set (node_ids cs)) es))
       \<and> (\<forall>e \<in> set (filter (\<lambda>e. property e ''source'' \<notin> set (node_ids cs) \<and>
                                   property e ''target'' \<notin> set (node_ids cs)) es).
            (property e ''source'' \<in> set (node_ids ns) \<longrightarrow>
               property e ''source''
                 \<in> set (node_ids (filter (\<lambda>n. property n ''id'' \<notin> set (node_ids cs)) ns)))
          \<and> (property e ''target'' \<in> set (node_ids ns) \<longrightarrow>
               property e ''target''
                 \<in> set (node_ids (filter (\<lambda>n. property n ''id'' \<notin> set (node_ids cs)) ns))))"
proof -
  have one: "isEditMode s \<and> is_primitive (node_id (currentNode s)) \<longrightarrow>
            handleDeleteNode s =
              Inr (s\<lparr> nodes := JArr (filter (\<lambda>n. property n ''id'' \<noteq> node_id (currentNode s)) ns),
                     edges := JArr (filter (\<lambda>e. property e ''source'' \<noteq> node_id (currentNode s) \<and>
                                                property e ''target'' \<noteq> node_id (currentNode s)) es),
                     showModal := False \<rparr>)"
    using assms(1-4) by (simp add: handleDeleteNode_effect)
  have many: "store_after (delete_sequence cs s) =
            Some (JArr (filter (\<lambda>n. property n ''id'' \<notin> set (node_ids cs)) ns),
                  JArr (filter (\<lambda>e. property e ''source'' \<notin> set (node_ids cs) \<and>
                                    property e ''target'' \<notin> set (node_ids cs)) es))"
    by (rule delete_sequence_store [OF assms(5) assms(1-4)])
  have kept: "referential_integrity ns es \<longrightarrow>
            referential_integrity
              (filter (\<lambda>n. property n ''id'' \<notin> set (node_ids cs)) ns)
              (filter (\<lambda>e. property e ''source'' \<notin> set (node_ids cs) \<and>
                           property e ''target'' \<notin> set (node_ids cs)) es)"
    by (simp add: referential_integrity_filter)
  have ends: "\<forall>e \<in> set (filter (\<lambda>e. property e ''source'' \<notin> set (node_ids cs) \<and>
                                   property e ''target'' \<notin> set (node_ids cs)) es).
            (property e ''source'' \<in> set (node_ids ns) \<longrightarrow>
               property e ''source''
                 \<in> set (node_ids (filter (\<lambda>n. property n ''id'' \<notin> set (node_ids cs)) ns)))
          \<and> (property e ''target'' \<in> set (node_ids ns) \<longrightarrow>
               property e ''target''
                 \<in> set (node_ids (filter (\<lambda>n. property n ''id'' \<notin> set (node_ids cs)) ns)))"
    using kept_edge_keeps_its_ends [of _ "set (node_ids cs)" es ns] by blast
  from one many kept ends show ?thesis by (intro conjI)
qed

text \<open>
  Deleting the seed node of \<open>editing_state\<close> leaves the second node and takes the edge
  along.
\<close>

theorem delete_cascades_witness:
  "list_all clickable [seed_node]
   \<and> referential_integrity [seed_node, second_node] [first_edge]
   \<and> handleDeleteNode editing_state
       = Inr (editing_state\<lparr> nodes := JArr [second_node], edges := JArr [], showModal := False \<rparr>)
   \<and> store_after (delete_sequence [seed_node] editing_state) = Some (JArr [second_node], JArr [])
   \<and> referential_integrity [second_node] []"
  using delete_cascades [of editing_state "[seed_node, second_node]" "[first_edge]" "[seed_node]"]
  by (simp add: editing_state_def seed_node_def second_node_def first_edge_def
      clickable_def referential_integrity_def node_ids_def)

text \<open>
  As stated, the claim has no dangling edge after a Delete in any store. In
  \<open>unchecked_state\<close> the two edges start at \<open>1\<close>, which no node has. Selecting the node
  \<open>2\<close> and pressing Delete removes that node and the edge to it; the edge from \<open>1\<close> to \<open>3\<close>
  stays, and its source is the identifier of no node.
\<close>

theorem delete_cascades_counterexample:
  "store unchecked_state = (JArr [second_node, third_node], JArr [first_edge, second_edge])
   \<and> list_all clickable [second_node]
   \<and> store_after (delete_sequence [second_node] unchecked_state)
       = Some (JArr [third_node], JArr [second_edge])
   \<and> property second_edge ''source'' = JStr ''1''
   \<and> JStr ''1'' \<notin> set (node_ids [third_node])
   \<and> \<not> referential_integrity [third_node] [second_edge]"
  by (simp add: handleNodeClick_def handleDeleteNode_def get_def js_or_def strict_equals_def
      store_def clickable_def referential_integrity_def node_ids_def unchecked_state_def
      second_node_def third_node_def first_edge_def second_edge_def)

subsection \<open>C3: the position of a new node\<close>

text \<open>
  Claim C3, as amended. Save in the state AddingNew with a label that is not blank, on
  a store whose nodes are the array \<open>ns\<close>, appends exactly one node: its \<open>id\<close> is the
  fresh identifier, its position is \<open>x = 150\<close> and \<open>y = 100 + 70 * n\<close>, where \<open>n\<close> is the
  number of nodes when there is at least one and \<open>1\<close> when there is none. The nodes
  before it and the edges are unchanged.
\<close>

theorem add_node_position:
  assumes "\<not> isEditMode s" and "nodes s = JArr ns"
    and "label (currentNode s) = JStr l" and "trim l \<noteq> []"
  shows "handleSaveNode uuid s =
           Inr (s\<lparr> error := [],
                  nodes := JArr (ns @ [added_node uuid (currentNode s)
                                         (100 + 70 * (if ns = [] then 1 else int (length ns)))]),
                  showModal := False \<rparr>)"
  using assms by (simp add: handleSaveNode_def get_def js_or_def added_node_def)

text \<open>The scenario of the specification: \<open>B\<close> is added to the seed node, at \<open>y = 170\<close>.\<close>

theorem add_node_position_witness:
  "\<not> isEditMode (onChangeLabel ''B'' (handleAddNode initial_state))
   \<and> trim ''B'' \<noteq> []
   \<and> handleSaveNode ''2'' (onChangeLabel ''B'' (handleAddNode initial_state))
       = Inr (initial_state\<lparr> nodes := JArr [seed_node, second_node],
                             currentNode := \<lparr> node_id = JStr [], label = JStr ''B'',
                                              description = JStr [] \<rparr> \<rparr>)"
  using add_node_position
          [of "onChangeLabel ''B'' (handleAddNode initial_state)" "[seed_node]" "''B''" "''2''"]
  by (simp add: onChangeLabel_def handleAddNode_def initial_state_def added_node_def
      data_of_def second_node_def trim_def is_white_space_def)

text \<open>
  As stated, the claim gives \<open>y = 100 + 70 * 0\<close> to a node added to an empty store. The
  program puts it at \<open>y = 170\<close>.
\<close>

theorem add_node_position_counterexample:
  "nodes empty_add_state = JArr []
   \<and> handleSaveNode ''u'' empty_add_state
       = Inr (empty_add_state\<lparr> nodes := JArr [added_node ''u'' (currentNode empty_add_state) 170],
                                showModal := False \<rparr>)
   \<and> added_node ''u'' (currentNode empty_add_state) 170
       \<noteq> added_node ''u'' (currentNode empty_add_state) (100 + 70 * int (length ([] :: jsval list)))"
  by (simp add: handleSaveNode_def get_def js_or_def added_node_def empty_add_state_def
      trim_def is_white_space_def)

subsection \<open>C4: a document without the two fields\<close>

text \<open>
  Claim C4, as amended. When the parsed document lacks the field \<open>nodes\<close> or the
  field \<open>edges\<close>, Import leaves the store unchanged. It reports nothing: the whole
  state, the error message included, stays as it was. The one exception is the
  document \<open>null\<close>, on which the read of a field throws: there the message
  \<open>Invalid JSON file\<close> is set.
\<close>

theorem import_without_fields_is_silent:
  assumes "\<not> has_field v ''nodes'' \<or> \<not> has_field v ''edges''"
  shows "onload (Json v) s = (if nullish v then s\<lparr> error := ''Invalid JSON file'' \<rparr> else s)"
  using assms by (auto simp: onload_def get_def property_absent)

text \<open>A document with nodes but no edges, and the document \<open>null\<close>.\<close>

theorem import_without_fields_is_silent_witness:
  "\<not> has_field (JObj [(''nodes'', JArr [second_node])]) ''edges''
   \<and> onload (Json (JObj [(''nodes'', JArr [second_node])])) initial_state = initial_state
   \<and> onload (Json JNull) initial_state = initial_state\<lparr> error := ''Invalid JSON file'' \<rparr>"
  using import_without_fields_is_silent [of "JObj [(''nodes'', JArr [second_node])]" initial_state]
    import_without_fields_is_silent [of JNull initial_state]
  by simp

text \<open>
  As stated, the claim has an error reported for the empty object. The program
  leaves the message empty.
\<close>

theorem import_without_fields_is_silent_counterexample:
  "\<not> has_field (JObj []) ''nodes''
   \<and> JSON_parse (Json (JObj [])) = Inr (JObj [])
   \<and> onload (Json (JObj [])) initial_state = initial_state
   \<and> error (onload (Json (JObj [])) initial_state) = []"
  by (simp add: onload_def get_def initial_state_def)

subsection \<open>C5: a blank label\<close>

text \<open>
  Claim C5. Save with a label that consists of white space only changes one thing, in
  the state AddingNew as in the state EditingExisting: the error message becomes
  \<open>Label is required\<close>. The nodes and the edges are unchanged, and the session stays in
  the state it was in: the modal does not close.
\<close>

theorem save_rejects_blank_label:
  assumes "label (currentNode s) = JStr l" and "list_all is_white_space l"
  shows "handleSaveNode uuid s = Inr (s\<lparr> error := ''Label is required'' \<rparr>)
       \<and> store_after (handleSaveNode uuid s) = Some (store s)
       \<and> map_sum id session_of (handleSaveNode uuid s) = Inr (session_of s)"
  using assms by (simp add: handleSaveNode_def trim_white_space store_def session_of_def)

text \<open>Three spaces as the label of a new node, and as the new label of the seed node.\<close>

theorem save_rejects_blank_label_witness:
  "list_all is_white_space ''   ''
   \<and> session_of (onChangeLabel ''   '' (handleAddNode initial_state)) = AddingNew
   \<and> handleSaveNode ''u'' (onChangeLabel ''   '' (handleAddNode initial_state))
       = Inr (onChangeLabel ''   '' (handleAddNode initial_state)\<lparr> error := ''Label is required'' \<rparr>)
   \<and> session_of (onChangeLabel ''   '' editing_state) = EditingExisting
   \<and> handleSaveNode ''u'' (onChangeLabel ''   '' editing_state)
       = Inr (onChangeLabel ''   '' editing_state\<lparr> error := ''Label is required'' \<rparr>)"
  using save_rejects_blank_label
          [of "onChangeLabel ''   '' (handleAddNode initial_state)" "''   ''" "''u''"]
    save_rejects_blank_label [of "onChangeLabel ''   '' editing_state" "''   ''" "''u''"]
  by (simp add: onChangeLabel_def handleAddNode_def session_of_def is_white_space_def
      editing_state_def)

subsection \<open>C6: update\<close>

text \<open>
  Claim C6, as amended. Save in the state EditingExisting with a label that is not
  blank, on a store whose nodes are objects, keeps the number and the order of the
  nodes. A node whose \<open>id\<close> is not the identifier in the buffer is unchanged. A node
  whose \<open>id\<close> is that identifier gets a new object as its \<open>data\<close>, which holds the
  label and the description of the buffer and nothing else: any other field that
  \<open>data\<close> held is dropped. Each property of the node other than \<open>data\<close>, \<open>id\<close> and
  \<open>position\<close> among them, is unchanged. The edges are unchanged.
\<close>

theorem update_node_frame:
  assumes "isEditMode s" and "nodes s = JArr ns" and "list_all is_object ns"
    and "label (currentNode s) = JStr l" and "trim l \<noteq> []"
    and "node_id (currentNode s) = i" and "is_primitive i"
  shows "\<exists>ns'. handleSaveNode uuid s
                  = Inr (s\<lparr> error := [], nodes := JArr ns', showModal := False \<rparr>)
           \<and> length ns' = length ns
           \<and> (\<forall>j<length ns.
                 if property (ns ! j) ''id'' = i
                 then property (ns' ! j) ''data''
                        = JObj [(''label'', JStr l), (''description'', description (currentNode s))]
                      \<and> (\<forall>k. k \<noteq> ''data'' \<longrightarrow> property (ns' ! j) k = property (ns ! j) k)
                 else ns' ! j = ns ! j)"
proof -
  define upd where "upd = (\<lambda>n (idx::nat).
    if property n ''id'' = i
    then JObj (AList.update ''data'' (data_of (currentNode s)) (spread n)) else n)"
  define ns' where "ns' = map (\<lambda>(j, x). upd x j) (enumerate 0 ns)"
  have obj: "is_object (ns ! j)" if "j < length ns" for j
    using assms(3) that by (simp add: list_all_length)
  have "Array_map
          (\<lambda>n idx. bind (get n ''id'') (\<lambda>i'.
             Inr (if strict_equals i' (node_id (currentNode s))
                  then JObj (AList.update ''data'' (data_of (currentNode s)) (spread n))
                  else n)))
          (JArr ns) = Inr (JArr ns')"
    unfolding ns'_def
  proof (rule Array_map_total)
    fix j assume "j < length ns"
    then have "\<not> nullish (ns ! j)" using obj [of j] by (cases "ns ! j") simp_all
    then show "bind (get (ns ! j) ''id'') (\<lambda>i'.
             Inr (if strict_equals i' (node_id (currentNode s))
                  then JObj (AList.update ''data'' (data_of (currentNode s)) (spread (ns ! j)))
                  else ns ! j)) = Inr (upd (ns ! j) j)"
      using assms(6,7) by (simp add: get_total strict_equals_primitive upd_def)
  qed
  then have run: "handleSaveNode uuid s
                    = Inr (s\<lparr> error := [], nodes := JArr ns', showModal := False \<rparr>)"
    using assms(1,2,4,5) by (simp add: handleSaveNode_def)
  have len: "length ns' = length ns"
    by (simp add: ns'_def)
  have nth: "ns' ! j = upd (ns ! j) j" if "j < length ns" for j
    using that by (simp add: ns'_def nth_enumerate_eq)
  have other: "ns' ! j = ns ! j" if "j < length ns" and "property (ns ! j) ''id'' \<noteq> i" for j
    using that by (simp add: nth upd_def)
  have data: "property (ns' ! j) ''data''
                = JObj [(''label'', JStr l), (''description'', description (currentNode s))]"
    if "j < length ns" and "property (ns ! j) ''id'' = i" for j
    using that assms(4) by (simp add: nth upd_def update_conv' data_of_def)
  have rest: "property (ns' ! j) k = property (ns ! j) k"
    if "j < length ns" and "property (ns ! j) ''id'' = i" and "k \<noteq> ''data''" for j k
  proof -
    from obj [OF that(1)] obtain ps where "ns ! j = JObj ps" by (cases "ns ! j") simp_all
    then show ?thesis using that by (simp add: nth upd_def update_conv')
  qed
  show ?thesis
    using run len other data rest by (intro exI [of _ ns']) simp
qed

text \<open>The seed node of \<open>editing_state\<close> is renamed; the second node is not touched.\<close>

theorem update_node_frame_witness:
  "list_all is_object [seed_node, second_node] \<and> trim ''Begin'' \<noteq> []
   \<and> (\<exists>ns'. handleSaveNode ''u'' editing_state
                = Inr (editing_state\<lparr> error := [], nodes := JArr ns', showModal := False \<rparr>)
          \<and> length ns' = 2
          \<and> property (ns' ! 0) ''data''
              = JObj [(''label'', JStr ''Begin''), (''description'', JStr [])]
          \<and> property (ns' ! 0) ''id'' = JStr ''1''
          \<and> property (ns' ! 0) ''position'' = JObj [(''x'', JNum 100), (''y'', JNum 100)]
          \<and> ns' ! 1 = second_node)"
proof -
  have shape: "list_all is_object [seed_node, second_node]" and label: "trim ''Begin'' \<noteq> []"
    by (simp_all add: seed_node_def second_node_def trim_def is_white_space_def)
  from update_node_frame
         [of editing_state "[seed_node, second_node]" "''Begin''" "JStr ''1''" "''u''"] shape label
  obtain ns' where
    run: "handleSaveNode ''u'' editing_state
            = Inr (editing_state\<lparr> error := [], nodes := JArr ns', showModal := False \<rparr>)"
    and len: "length ns' = length [seed_node, second_node]"
    and each: "\<forall>j<length [seed_node, second_node].
                 if property ([seed_node, second_node] ! j) ''id'' = JStr ''1''
                 then property (ns' ! j) ''data''
                        = JObj [(''label'', JStr ''Begin''),
                                (''description'', description (currentNode editing_state))]
                      \<and> (\<forall>k. k \<noteq> ''data'' \<longrightarrow>
                            property (ns' ! j) k = property ([seed_node, second_node] ! j) k)
                 else ns' ! j = [seed_node, second_node] ! j"
    by (auto simp: editing_state_def)
  from each have "property (ns' ! 0) ''data''
                    = JObj [(''label'', JStr ''Begin''), (''description'', JStr [])]"
    and "property (ns' ! 0) ''id'' = JStr ''1''"
    and "property (ns' ! 0) ''position'' = JObj [(''x'', JNum 100), (''y'', JNum 100)]"
    by (simp_all add: seed_node_def editing_state_def)
  moreover from each have "ns' ! 1 = second_node"
    by (simp add: second_node_def)
  ultimately show ?thesis
    using shape label run len by auto
qed

text \<open>
  As stated, the claim has Save change the label and the description only. In
  \<open>coloured_state\<close> the \<open>data\<close> of the node holds the field \<open>color\<close>; after Save it does
  not.
\<close>

theorem update_node_frame_counterexample:
  "nodes coloured_state = JArr [coloured_node]
   \<and> property (property coloured_node ''data'') ''color'' = JStr ''red''
   \<and> handleSaveNode ''u'' coloured_state
       = Inr (coloured_state
                \<lparr> nodes := JArr [JObj [(''id'', JStr ''1''),
                                       (''position'', JObj [(''x'', JNum 100), (''y'', JNum 100)]),
                                       (''data'', JObj [(''label'', JStr ''Begin''),
                                                        (''description'', JStr [])])]],
                  showModal := False \<rparr>)
   \<and> property (JObj [(''label'', JStr ''Begin''), (''description'', JStr [])]) ''color''
       = JUndefined"
  by (simp add: handleSaveNode_def get_def strict_equals_def data_of_def coloured_state_def
      coloured_node_def trim_def is_white_space_def)

subsection \<open>C7: the automatic layout\<close>

text \<open>
  Claim C7. On a store whose nodes are an array, AutoArrange keeps the number and the
  order of the nodes and gives the node at index \<open>j\<close>, counted from zero, the position
  \<open>x = 100\<close>, \<open>y = 100 + j * 80\<close>. Every other property of a node that is an object,
  its \<open>id\<close> among them, is unchanged, and so are the edges and the rest of the state.
  Applied to its own result, AutoArrange returns that result.
\<close>

theorem autoArrange_layout:
  assumes "nodes s = JArr ns"
  shows "\<exists>ns'. autoArrange s = Inr (s\<lparr> nodes := JArr ns' \<rparr>)
           \<and> length ns' = length ns
           \<and> (\<forall>j<length ns.
                 property (ns' ! j) ''position''
                   = JObj [(''x'', JNum 100), (''y'', JNum (100 + int j * 80))]
                 \<and> (is_object (ns ! j) \<longrightarrow>
                      (\<forall>k. k \<noteq> ''position'' \<longrightarrow> property (ns' ! j) k = property (ns ! j) k)))
           \<and> autoArrange (s\<lparr> nodes := JArr ns' \<rparr>) = Inr (s\<lparr> nodes := JArr ns' \<rparr>)"
proof -
  define arr where "arr = (\<lambda>node idx.
    JObj (AList.update ''position''
            (JObj [(''x'', JNum 100), (''y'', JNum (100 + int idx * 80))]) (spread node)))"
  define ns' where "ns' = map (\<lambda>(j, x). arr x j) (enumerate 0 ns)"
  have run: "autoArrange t = Inr (t\<lparr> nodes := JArr (map (\<lambda>(j, x). arr x j) (enumerate 0 xs)) \<rparr>)"
    if "nodes t = JArr xs" for t xs
    unfolding autoArrange_def that arr_def
    by (subst Array_map_total [where g = "\<lambda>node idx. JObj (AList.update ''position''
            (JObj [(''x'', JNum 100), (''y'', JNum (100 + int idx * 80))]) (spread node))"])
       simp_all
  have len: "length ns' = length ns"
    by (simp add: ns'_def)
  have nth: "ns' ! j = arr (ns ! j) j" if "j < length ns" for j
    using that by (simp add: ns'_def nth_enumerate_eq)
  have again: "arr (arr x j) j = arr x j" for x j
    by (simp add: arr_def)
  have "map (\<lambda>(j, x). arr x j) (enumerate 0 ns') = ns'"
    by (rule nth_equalityI) (simp_all add: len nth nth_enumerate_eq again)
  then have idem: "autoArrange (s\<lparr> nodes := JArr ns' \<rparr>) = Inr (s\<lparr> nodes := JArr ns' \<rparr>)"
    using run [of "s\<lparr> nodes := JArr ns' \<rparr>" ns'] by simp
  have pos: "property (ns' ! j) ''position''
               = JObj [(''x'', JNum 100), (''y'', JNum (100 + int j * 80))]"
    if "j < length ns" for j
    using that by (simp add: nth arr_def update_conv')
  have rest: "property (ns' ! j) k = property (ns ! j) k"
    if "j < length ns" and "is_object (ns ! j)" and "k \<noteq> ''position''" for j k
  proof -
    from that(2) obtain ps where "ns ! j = JObj ps" by (cases "ns ! j") simp_all
    then show ?thesis using that(1,3) by (simp add: nth arr_def update_conv')
  qed
  from run [OF assms] have "autoArrange s = Inr (s\<lparr> nodes := JArr ns' \<rparr>)"
    by (simp add: ns'_def)
  with len pos rest idem show ?thesis by blast
qed

text \<open>The two nodes of \<open>editing_state\<close> are put at \<open>y = 100\<close> and \<open>y = 180\<close>.\<close>

theorem autoArrange_layout_witness:
  "\<exists>ns'. autoArrange editing_state = Inr (editing_state\<lparr> nodes := JArr ns' \<rparr>)
      \<and> length ns' = 2
      \<and> property (ns' ! 0) ''position'' = JObj [(''x'', JNum 100), (''y'', JNum 100)]
      \<and> property (ns' ! 1) ''position'' = JObj [(''x'', JNum 100), (''y'', JNum 180)]
      \<and> property (ns' ! 0) ''id'' = JStr ''1''
      \<and> property (ns' ! 1) ''id'' = JStr ''2''
      \<and> autoArrange (editing_state\<lparr> nodes := JArr ns' \<rparr>) = Inr (editing_state\<lparr> nodes := JArr ns' \<rparr>)"
proof -
  from autoArrange_layout [of editing_state "[seed_node, second_node]"]
  obtain ns' where
    run: "autoArrange editing_state = Inr (editing_state\<lparr> nodes := JArr ns' \<rparr>)"
    and len: "length ns' = length [seed_node, second_node]"
    and each: "\<forall>j<length [seed_node, second_node].
                 property (ns' ! j) ''position''
                   = JObj [(''x'', JNum 100), (''y'', JNum (100 + int j * 80))]
                 \<and> (is_object ([seed_node, second_node] ! j) \<longrightarrow>
                      (\<forall>k. k \<noteq> ''position'' \<longrightarrow>
                         property (ns' ! j) k = property ([seed_node, second_node] ! j) k))"
    and idem: "autoArrange (editing_state\<lparr> nodes := JArr ns' \<rparr>)
                 = Inr (editing_state\<lparr> nodes := JArr ns' \<rparr>)"
    by (auto simp: editing_state_def)
  from each have "property (ns' ! 0) ''position'' = JObj [(''x'', JNum 100), (''y'', JNum 100)]"
    and "property (ns' ! 1) ''position'' = JObj [(''x'', JNum 100), (''y'', JNum 180)]"
    and "property (ns' ! 0) ''id'' = JStr ''1''"
    and "property (ns' ! 1) ''id'' = JStr ''2''"
    by (simp_all add: seed_node_def second_node_def)
  with run len idem show ?thesis by auto
qed

subsection \<open>C8: an identifier that no node has\<close>

text \<open>
  Claim C8, as amended. Let the identifier in the buffer be the \<open>id\<close> of no node of
  the store. Then Save in edit mode, with a label that is not blank, leaves the nodes
  and the edges unchanged. Delete leaves the nodes unchanged and removes exactly the
  edges whose \<open>source\<close> or \<open>target\<close> is the identifier: it leaves the whole store
  unchanged when no edge has the identifier at one of its ends, which is so whenever
  every edge joins two nodes of the store. Neither handler throws.
\<close>

theorem absent_id_noop:
  assumes "isEditMode s" and "nodes s = JArr ns" and "edges s = JArr es"
    and "list_all (\<lambda>v. \<not> nullish v) ns" and "list_all (\<lambda>v. \<not> nullish v) es"
    and "node_id (currentNode s) = i" and "is_primitive i"
    and "i \<notin> set (node_ids ns)"
  shows "(label (currentNode s) = JStr l \<and> trim l \<noteq> [] \<longrightarrow>
            store_after (handleSaveNode uuid s) = Some (store s))
       \<and> store_after (handleDeleteNode s) =
            Some (JArr ns, JArr (filter (\<lambda>e. property e ''source'' \<noteq> i \<and>
                                             property e ''target'' \<noteq> i) es))
       \<and> (list_all (\<lambda>e. property e ''source'' \<noteq> i \<and> property e ''target'' \<noteq> i) es \<longrightarrow>
            store_after (handleDeleteNode s) = Some (store s))
       \<and> (referential_integrity ns es \<longrightarrow>
            store_after (handleDeleteNode s) = Some (store s))"
proof -
  have del: "store_after (handleDeleteNode s) =
            Some (JArr ns, JArr (filter (\<lambda>e. property e ''source'' \<noteq> i \<and>
                                             property e ''target'' \<noteq> i) es))"
    using handleDeleteNode_effect [of s ns es] assms
    by (simp add: store_def filter_id_absent)
  have keep: "store_after (handleDeleteNode s) = Some (store s)"
    if "list_all (\<lambda>e. property e ''source'' \<noteq> i \<and> property e ''target'' \<noteq> i) es"
  proof -
    from that have "filter (\<lambda>e. property e ''source'' \<noteq> i \<and> property e ''target'' \<noteq> i) es = es"
      by (intro filter_True) (simp add: list_all_iff)
    with del show ?thesis using assms(2,3) by (simp add: store_def)
  qed
  have integ: "list_all (\<lambda>e. property e ''source'' \<noteq> i \<and> property e ''target'' \<noteq> i) es"
    if "referential_integrity ns es"
    using that assms(8) by (auto simp: referential_integrity_def list_all_iff)
  have upd: "store_after (handleSaveNode uuid s) = Some (store s)"
    if "label (currentNode s) = JStr l" and "trim l \<noteq> []"
  proof -
    have "Array_map
            (\<lambda>n idx. bind (get n ''id'') (\<lambda>i'.
               Inr (if strict_equals i' (node_id (currentNode s))
                    then JObj (AList.update ''data'' (data_of (currentNode s)) (spread n))
                    else n)))
            (JArr ns) = Inr (JArr (map (\<lambda>(j, x). x) (enumerate 0 ns)))"
    proof (rule Array_map_total)
      fix j assume j: "j < length ns"
      then have "\<not> nullish (ns ! j)" using assms(4) by (simp add: list_all_length)
      moreover have "property (ns ! j) ''id'' \<noteq> i"
        using assms(8) j by (auto simp: node_ids_def)
      ultimately show "bind (get (ns ! j) ''id'') (\<lambda>i'.
             Inr (if strict_equals i' (node_id (currentNode s))
                  then JObj (AList.update ''data'' (data_of (currentNode s)) (spread (ns ! j)))
                  else ns ! j)) = Inr (ns ! j)"
        using assms(6,7) by (simp add: get_total strict_equals_primitive)
    qed
    moreover have "map (\<lambda>(j, x). x) (enumerate 0 ns) = ns"
      by (rule nth_equalityI) (simp_all add: nth_enumerate_eq)
    ultimately show ?thesis
      using assms(1,2) that by (simp add: handleSaveNode_def store_def)
  qed
  from del keep integ upd show ?thesis by blast
qed

text \<open>In \<open>stale_state\<close> the buffer holds the identifier \<open>3\<close>, which no node has.\<close>

theorem absent_id_noop_witness:
  "JStr ''3'' \<notin> set (node_ids [seed_node, second_node])
   \<and> referential_integrity [seed_node, second_node] [first_edge]
   \<and> trim ''C'' \<noteq> []
   \<and> store_after (handleSaveNode ''u'' stale_state) = Some (store stale_state)
   \<and> store_after (handleDeleteNode stale_state) = Some (store stale_state)"
  using absent_id_noop
          [where s = stale_state and ns = "[seed_node, second_node]" and es = "[first_edge]"
             and i = "JStr ''3''" and l = "''C''" and uuid = "''u''"]
  by (simp add: stale_state_def seed_node_def second_node_def first_edge_def
      referential_integrity_def node_ids_def trim_def is_white_space_def store_def)

text \<open>
  As stated, the claim has Delete leave the store of \<open>dangling_state\<close> unchanged: no
  node there has the identifier \<open>1\<close> of the buffer. The program removes the edge that
  starts at \<open>1\<close>.
\<close>

theorem absent_id_noop_counterexample:
  "JStr ''1'' \<notin> set (node_ids [second_node])
   \<and> nodes dangling_state = JArr [second_node]
   \<and> node_id (currentNode dangling_state) = JStr ''1''
   \<and> store dangling_state = (JArr [second_node], JArr [first_edge])
   \<and> store_after (handleDeleteNode dangling_state) = Some (JArr [second_node], JArr [])
   \<and> store_after (handleDeleteNode dangling_state) \<noteq> Some (store dangling_state)"
  by (simp add: handleDeleteNode_def get_def strict_equals_def store_def node_ids_def
      dangling_state_def second_node_def first_edge_def)

subsection \<open>C9: what Import accepts\<close>

text \<open>
  Claim C9. On a parsed document other than \<open>null\<close>, Import looks at nothing but the
  truth value of the two fields. When \<open>nodes\<close> and \<open>edges\<close> are both truthy, their
  values become the nodes and the edges of the store as they are, whatever they are.
  When one of them is falsy (absent, \<open>null\<close>, \<open>false\<close>, \<open>0\<close> or the empty string) the
  state is left as it was, the error message included.
\<close>

theorem import_installs_truthy_fields_verbatim:
  "onload (Json v) s =
     (if nullish v then s\<lparr> error := ''Invalid JSON file'' \<rparr>
      else if truthy (property v ''nodes'') \<and> truthy (property v ''edges'')
      then s\<lparr> nodes := property v ''nodes'', edges := property v ''edges'' \<rparr>
      else s)"
proof (cases "nullish v")
  case True
  then have "get v ''nodes'' = Inl TypeError"
    by (simp add: get_def)
  then show ?thesis
    using True by (simp add: onload_def)
next
  case False
  then have "get v ''nodes'' = Inr (property v ''nodes'')"
    and "get v ''edges'' = Inr (property v ''edges'')"
    by (simp_all add: get_total)
  then show ?thesis
    using False by (simp add: onload_def)
qed

text \<open>
  A number and a string are taken for nodes and edges; an empty array of nodes is
  taken; \<open>null\<close>, \<open>0\<close> and the empty string are not.
\<close>

theorem import_installs_truthy_fields_verbatim_witness:
  "onload (Json (JObj [(''nodes'', JNum 5), (''edges'', JStr ''x'')])) initial_state
     = initial_state\<lparr> nodes := JNum 5, edges := JStr ''x'' \<rparr>
   \<and> onload (Json (JObj [(''nodes'', JArr []), (''edges'', JArr [])])) initial_state
     = initial_state\<lparr> nodes := JArr [], edges := JArr [] \<rparr>
   \<and> onload (Json (JObj [(''nodes'', JNull), (''edges'', JArr [])])) initial_state
     = initial_state
   \<and> onload (Json (JObj [(''nodes'', JNum 0), (''edges'', JArr [])])) initial_state
     = initial_state
   \<and> onload (Json (JObj [(''nodes'', JArr []), (''edges'', JStr [])])) initial_state
     = initial_state"
  using import_installs_truthy_fields_verbatim
          [of "JObj [(''nodes'', JNum 5), (''edges'', JStr ''x'')]" initial_state]
    import_installs_truthy_fields_verbatim
          [of "JObj [(''nodes'', JArr []), (''edges'', JArr [])]" initial_state]
    import_installs_truthy_fields_verbatim
          [of "JObj [(''nodes'', JNull), (''edges'', JArr [])]" initial_state]
    import_installs_truthy_fields_verbatim
          [of "JObj [(''nodes'', JNum 0), (''edges'', JArr [])]" initial_state]
    import_installs_truthy_fields_verbatim
          [of "JObj [(''nodes'', JArr []), (''edges'', JStr [])]" initial_state]
  by simp

subsection \<open>C10: Delete while a node is being added\<close>

text \<open>
  Claim C10. In the state AddingNew the Delete action returns the state it was given:
  the nodes and the edges are unchanged and the session is still AddingNew, not
  Closed.
\<close>

theorem delete_not_offered_when_adding:
  assumes "session_of s = AddingNew"
  shows "handleDeleteNode s = Inr s"
  using assms by (simp add: handleDeleteNode_def session_of_def split: if_splits)

text \<open>The state after Add was pressed in the initial state.\<close>

theorem delete_not_offered_when_adding_witness:
  "session_of (handleAddNode initial_state) = AddingNew
   \<and> handleDeleteNode (handleAddNode initial_state) = Inr (handleAddNode initial_state)"
  using delete_not_offered_when_adding [of "handleAddNode initial_state"]
  by (simp add: session_of_def handleAddNode_def)

end
